theory Spec2Isabelle
  imports Complex_Main
begin

section \<open>Python values, errors and list indexing\<close>

text \<open>
  The module \<^verbatim>\<open>pyrobolearn/robots/gripper.py\<close> is dynamically typed. The values that
  reach it are modelled by \<open>py_val\<close>: \<^verbatim>\<open>None\<close>, booleans, unbounded integers, floats and
  tuples. No arithmetic is done on a float in this module: a float is only passed on to the
  Robot constructor or tested for truth, so \<open>PyFloat\<close> carries a real number and the
  literal \<^verbatim>\<open>1.\<close> is \<open>PyFloat 1\<close>.
\<close>

datatype py_val = PyNone | PyBool bool | PyInt int | PyFloat real | PyTuple "py_val list"

datatype py_error = IndexError | TypeError | AttributeError

text \<open>The truth value Python gives to a value in \<^verbatim>\<open>if v:\<close>.\<close>

fun truthy :: "py_val \<Rightarrow> bool" where
  "truthy PyNone = False"
| "truthy (PyBool b) = b"
| "truthy (PyInt i) = (i \<noteq> 0)"
| "truthy (PyFloat x) = (x \<noteq> 0)"
| "truthy (PyTuple vs) = (vs \<noteq> [])"

text \<open>
  The integer a value stands for as a list index (\<^verbatim>\<open>bool\<close> is a subclass of \<^verbatim>\<open>int\<close>);
  the other values are no index and \<^verbatim>\<open>xs[v]\<close> raises \<^verbatim>\<open>TypeError\<close>.
\<close>

fun as_index :: "py_val \<Rightarrow> int option" where
  "as_index (PyBool b) = Some (if b then 1 else 0)"
| "as_index (PyInt i) = Some i"
| "as_index PyNone = None"
| "as_index (PyFloat x) = None"
| "as_index (PyTuple vs) = None"

text \<open>
  \<^verbatim>\<open>xs[key]\<close> on a Python list: an index from \<open>0\<close> to \<open>len - 1\<close> reads from the front,
  one from \<open>- len\<close> to \<open>-1\<close> reads from the end, every other integer raises
  \<^verbatim>\<open>IndexError\<close>.
\<close>

definition list_getitem :: "'a list \<Rightarrow> py_val \<Rightarrow> py_error + 'a" where
  "list_getitem xs key =
     (case as_index key of
        None \<Rightarrow> Inl TypeError
      | Some i \<Rightarrow>
          (if 0 \<le> i
           then (if i < int (length xs) then Inr (xs ! nat i) else Inl IndexError)
           else (if 0 \<le> i + int (length xs) then Inr (xs ! nat (i + int (length xs)))
                 else Inl IndexError)))"

text \<open>
  A parameter with a default value: \<open>None\<close> when the caller omits the argument,
  \<open>Some v\<close> when the caller passes \<open>v\<close> (which may itself be \<open>PyNone\<close>).
\<close>

definition arg :: "'a \<Rightarrow> 'a option \<Rightarrow> 'a" where
  "arg dflt given = (case given of None \<Rightarrow> dflt | Some v \<Rightarrow> v)"

section \<open>The Gripper object\<close>

text \<open>
  A gripper object holds whatever the base class Robot keeps in it (\<open>robot\<close>, opaque here)
  and the attribute \<^verbatim>\<open>fingers\<close>: a list of fingers, each finger a list of link/joint
  ids. The attribute is \<open>None\<close> as long as no assignment to \<^verbatim>\<open>self.fingers\<close> has run;
  reading it then raises \<^verbatim>\<open>AttributeError\<close>.
\<close>

record 'r gripper =
  robot :: 'r
  fingers :: "int list list option"

text \<open>The statement \<^verbatim>\<open>self.fingers = fs\<close>.\<close>

definition assign_fingers :: "'r gripper \<Rightarrow> int list list \<Rightarrow> 'r gripper" where
  "assign_fingers self fs = self\<lparr>fingers := Some fs\<rparr>"

text \<open>
  A method call returns the exception raised or the value returned, together with the
  object as the call leaves it.
\<close>

type_synonym ('e, 'a, 'r) outcome = "('e + 'a) \<times> 'r gripper"

text \<open>The property \<^verbatim>\<open>num_fingers\<close>: \<^verbatim>\<open>return len(self.fingers)\<close>.\<close>

definition num_fingers :: "'r gripper \<Rightarrow> (py_error, int, 'r) outcome" where
  "num_fingers self =
     (case fingers self of
        None \<Rightarrow> (Inl AttributeError, self)
      | Some fs \<Rightarrow> (Inr (int (length fs)), self))"

text \<open>
  \<^verbatim>\<open>get_finger\<close> returns one finger (\<^verbatim>\<open>self.fingers[finger_id]\<close>) or the whole list
  (\<^verbatim>\<open>self.fingers\<close>).
\<close>

datatype finger_result = Finger "int list" | Fingers "int list list"

definition get_finger :: "'r gripper \<Rightarrow> py_val option \<Rightarrow> (py_error, finger_result, 'r) outcome" where
  "get_finger self finger_id_arg =
     (let finger_id = arg PyNone finger_id_arg in
      if truthy finger_id
      then (case fingers self of
              None \<Rightarrow> (Inl AttributeError, self)
            | Some fs \<Rightarrow>
                (case list_getitem fs finger_id of
                   Inl err \<Rightarrow> (Inl err, self)
                 | Inr finger \<Rightarrow> (Inr (Finger finger), self)))
      else (case fingers self of
              None \<Rightarrow> (Inl AttributeError, self)
            | Some fs \<Rightarrow> (Inr (Fingers fs), self)))"

section \<open>Construction\<close>

text \<open>The default values of the signature of every \<^verbatim>\<open>__init__\<close> of the module.\<close>

definition default_position :: py_val where
  "default_position = PyTuple [PyInt 0, PyInt 0, PyFloat 1]"

definition default_orientation :: py_val where
  "default_orientation = PyTuple [PyInt 0, PyInt 0, PyInt 0, PyInt 1]"

definition default_fixed_base :: py_val where
  "default_fixed_base = PyBool False"

definition default_scale :: py_val where
  "default_scale = PyFloat 1"

text \<open>
  \<^verbatim>\<open>Robot.__init__\<close> lives in \<^verbatim>\<open>pyrobolearn/robots/robot.py\<close>, outside this module. It
  is a parameter of the model: any function from the object and the six arguments to an
  outcome, raising an exception of some type \<open>'e\<close> or returning \<^verbatim>\<open>None\<close>.
\<close>

type_synonym ('r, 'e, 'sim, 'urdf) robot_init =
  "'r gripper \<Rightarrow> 'sim \<Rightarrow> 'urdf \<Rightarrow> py_val \<Rightarrow> py_val \<Rightarrow> py_val \<Rightarrow> py_val \<Rightarrow> ('e, unit, 'r) outcome"

text \<open>
  \<^verbatim>\<open>Gripper.__init__\<close>: the call of \<^verbatim>\<open>super(Gripper, self).__init__\<close> with the six
  arguments, then \<^verbatim>\<open>self.fingers = []\<close>. An exception of the call leaves the method at
  once.
\<close>

definition Gripper_init ::
  "('r, 'e, 'sim, 'urdf) robot_init \<Rightarrow> 'r gripper \<Rightarrow> 'sim \<Rightarrow> 'urdf \<Rightarrow>
   py_val option \<Rightarrow> py_val option \<Rightarrow> py_val option \<Rightarrow> py_val option \<Rightarrow> ('e, unit, 'r) outcome" where
  "Gripper_init Robot_init self simulator urdf position orientation fixed_base scale =
     (case Robot_init self simulator urdf
             (arg default_position position) (arg default_orientation orientation)
             (arg default_fixed_base fixed_base) (arg default_scale scale) of
        (Inl exn, self') \<Rightarrow> (Inl exn, self')
      | (Inr u, self') \<Rightarrow> (Inr (), assign_fingers self' []))"

text \<open>
  The three variants: each \<^verbatim>\<open>__init__\<close> has the same signature and only calls
  \<^verbatim>\<open>Gripper.__init__\<close> with its six arguments, all passed.
\<close>

definition ParallelGripper_init ::
  "('r, 'e, 'sim, 'urdf) robot_init \<Rightarrow> 'r gripper \<Rightarrow> 'sim \<Rightarrow> 'urdf \<Rightarrow>
   py_val option \<Rightarrow> py_val option \<Rightarrow> py_val option \<Rightarrow> py_val option \<Rightarrow> ('e, unit, 'r) outcome" where
  "ParallelGripper_init Robot_init self simulator urdf position orientation fixed_base scale =
     Gripper_init Robot_init self simulator urdf
       (Some (arg default_position position)) (Some (arg default_orientation orientation))
       (Some (arg default_fixed_base fixed_base)) (Some (arg default_scale scale))"

definition AngularGripper_init ::
  "('r, 'e, 'sim, 'urdf) robot_init \<Rightarrow> 'r gripper \<Rightarrow> 'sim \<Rightarrow> 'urdf \<Rightarrow>
   py_val option \<Rightarrow> py_val option \<Rightarrow> py_val option \<Rightarrow> py_val option \<Rightarrow> ('e, unit, 'r) outcome" where
  "AngularGripper_init Robot_init self simulator urdf position orientation fixed_base scale =
     Gripper_init Robot_init self simulator urdf
       (Some (arg default_position position)) (Some (arg default_orientation orientation))
       (Some (arg default_fixed_base fixed_base)) (Some (arg default_scale scale))"

definition VacuumGripper_init ::
  "('r, 'e, 'sim, 'urdf) robot_init \<Rightarrow> 'r gripper \<Rightarrow> 'sim \<Rightarrow> 'urdf \<Rightarrow>
   py_val option \<Rightarrow> py_val option \<Rightarrow> py_val option \<Rightarrow> py_val option \<Rightarrow> ('e, unit, 'r) outcome" where
  "VacuumGripper_init Robot_init self simulator urdf position orientation fixed_base scale =
     Gripper_init Robot_init self simulator urdf
       (Some (arg default_position position)) (Some (arg default_orientation orientation))
       (Some (arg default_fixed_base fixed_base)) (Some (arg default_scale scale))"

text \<open>The four classes of the module, and the \<^verbatim>\<open>__init__\<close> each of them defines.\<close>

datatype gripper_class = Gripper | ParallelGripper | AngularGripper | VacuumGripper

fun init_of ::
  "gripper_class \<Rightarrow> ('r, 'e, 'sim, 'urdf) robot_init \<Rightarrow> 'r gripper \<Rightarrow> 'sim \<Rightarrow> 'urdf \<Rightarrow>
   py_val option \<Rightarrow> py_val option \<Rightarrow> py_val option \<Rightarrow> py_val option \<Rightarrow> ('e, unit, 'r) outcome" where
  "init_of Gripper = Gripper_init"
| "init_of ParallelGripper = ParallelGripper_init"
| "init_of AngularGripper = AngularGripper_init"
| "init_of VacuumGripper = VacuumGripper_init"

section \<open>Indexing lemmas\<close>

lemma list_getitem_front:
  "0 \<le> i \<Longrightarrow> i < int (length xs) \<Longrightarrow> list_getitem xs (PyInt i) = Inr (xs ! nat i)"
  by (simp add: list_getitem_def)

lemma list_getitem_back:
  "1 \<le> k \<Longrightarrow> k \<le> length xs \<Longrightarrow> list_getitem xs (PyInt (- int k)) = Inr (xs ! (length xs - k))"
  by (simp add: list_getitem_def nat_diff_distrib' flip: of_nat_diff)

lemma list_getitem_beyond:
  "int (length xs) \<le> i \<Longrightarrow> list_getitem xs (PyInt i) = Inl IndexError"
  by (simp add: list_getitem_def)

lemma list_getitem_below:
  "i < - int (length xs) \<Longrightarrow> list_getitem xs (PyInt i) = Inl IndexError"
  by (simp add: list_getitem_def)

section \<open>Lemmas on the two queries and on construction\<close>

lemma get_finger_fingers_unset:
  "fingers self = None \<Longrightarrow> get_finger self finger_id = (Inl AttributeError, self)"
  by (simp add: get_finger_def Let_def)

lemma get_finger_omitted:
  "fingers self = Some fs \<Longrightarrow> get_finger self None = (Inr (Fingers fs), self)"
  by (simp add: get_finger_def arg_def)

lemma get_finger_nonzero:
  "fingers self = Some fs \<Longrightarrow> i \<noteq> 0 \<Longrightarrow>
   get_finger self (Some (PyInt i)) =
     (case list_getitem fs (PyInt i) of
        Inl err \<Rightarrow> (Inl err, self)
      | Inr finger \<Rightarrow> (Inr (Finger finger), self))"
  by (simp add: get_finger_def arg_def)

lemma get_finger_positive_index:
  "fingers self = Some fs \<Longrightarrow> 0 < i \<Longrightarrow> i < int (length fs) \<Longrightarrow>
   get_finger self (Some (PyInt i)) = (Inr (Finger (fs ! nat i)), self)"
  by (simp add: get_finger_nonzero list_getitem_front)

lemma get_finger_nonzero_out_of_range:
  "fingers self = Some fs \<Longrightarrow> i \<noteq> 0 \<Longrightarrow> i < - int (length fs) \<or> int (length fs) \<le> i \<Longrightarrow>
   get_finger self (Some (PyInt i)) = (Inl IndexError, self)"
  by (auto simp add: get_finger_nonzero list_getitem_beyond list_getitem_below)

lemma init_of_is_Gripper_init:
  "init_of cls Robot_init self simulator urdf position orientation fixed_base scale =
   Gripper_init Robot_init self simulator urdf position orientation fixed_base scale"
  by (cases cls)
     (simp_all add: ParallelGripper_init_def AngularGripper_init_def VacuumGripper_init_def
        Gripper_init_def arg_def)

lemma Gripper_init_returns:
  "fst (Gripper_init Robot_init self simulator urdf position orientation fixed_base scale) = Inr u \<Longrightarrow>
   fingers (snd (Gripper_init Robot_init self simulator urdf position orientation fixed_base scale)) = Some []"
  by (auto simp add: Gripper_init_def assign_fingers_def split: prod.splits sum.splits)

lemma foldl_assign_fingers:
  "fingers self = Some fs0 \<Longrightarrow>
   fingers (foldl assign_fingers self fss) = Some (last (fs0 # fss))"
  by (induction fss arbitrary: self fs0) (simp_all add: assign_fingers_def)

section \<open>The claims\<close>

text \<open>
  C1: for a gripper whose fingers are assigned and a valid index \<open>i\<close>, \<^verbatim>\<open>get_finger(i)\<close>
  should return the finger at position \<open>i\<close>. The code does so for \<open>0 < i\<close> (lemma
  \<open>get_finger_positive_index\<close>), but not for \<open>i = 0\<close>: the test \<^verbatim>\<open>if finger_id:\<close> takes
  the index 0 for an omitted argument. With the fingers \<open>[[10, 11], [20, 21]]\<close>,
  \<^verbatim>\<open>get_finger(0)\<close> returns the whole list and not the finger \<open>[10, 11]\<close>.
\<close>

theorem get_finger_index_zero_of_two_fingers:
  "get_finger \<lparr>robot = (), fingers = Some [[10, 11], [20, 21]]\<rparr> (Some (PyInt 0)) =
     (Inr (Fingers [[10, 11], [20, 21]]), \<lparr>robot = (), fingers = Some [[10, 11], [20, 21]]\<rparr>)"
  by (simp add: get_finger_def arg_def)

text \<open>
  C2: for an index that names no finger, \<^verbatim>\<open>get_finger\<close> should raise an out-of-range
  error. The code raises \<^verbatim>\<open>IndexError\<close> for every such index but 0 (lemma
  \<open>get_finger_nonzero_out_of_range\<close>). On a gripper with no finger the index 0 is out
  of range, and \<^verbatim>\<open>get_finger(0)\<close> returns the empty list of fingers without an error.
\<close>

theorem get_finger_index_zero_of_no_finger:
  "get_finger \<lparr>robot = (), fingers = Some []\<rparr> (Some (PyInt 0)) =
     (Inr (Fingers []), \<lparr>robot = (), fingers = Some []\<rparr>)"
  by (simp add: get_finger_def arg_def)

text \<open>
  C3: \<^verbatim>\<open>get_finger(0)\<close> does what \<^verbatim>\<open>get_finger()\<close> does, on every gripper: when the
  fingers are assigned it returns the whole list of fingers, not the finger at position 0.
\<close>

theorem get_finger_zero_is_omitted:
  "get_finger self (Some (PyInt 0)) = get_finger self None \<and>
   (fingers self = Some fs \<longrightarrow>
      fst (get_finger self (Some (PyInt 0))) = Inr (Fingers fs) \<and>
      fst (get_finger self (Some (PyInt 0))) \<noteq> Inr (Finger (fs ! 0)))"
  by (simp add: get_finger_def arg_def)

theorem get_finger_zero_is_omitted_witness:
  "get_finger \<lparr>robot = (), fingers = Some [[10, 11], [20, 21]]\<rparr> (Some (PyInt 0)) =
     get_finger \<lparr>robot = (), fingers = Some [[10, 11], [20, 21]]\<rparr> None \<and>
   fingers \<lparr>robot = (), fingers = Some [[10, 11], [20, 21]]\<rparr> = Some [[10, 11], [20, 21]] \<and>
   fst (get_finger \<lparr>robot = (), fingers = Some [[10, 11], [20, 21]]\<rparr> (Some (PyInt 0))) =
     Inr (Fingers [[10, 11], [20, 21]]) \<and>
   fst (get_finger \<lparr>robot = (), fingers = Some [[10, 11], [20, 21]]\<rparr> (Some (PyInt 0))) \<noteq>
     Inr (Finger [10, 11])"
  using get_finger_zero_is_omitted
    [of "\<lparr>robot = (), fingers = Some [[10, 11], [20, 21]]\<rparr>" "[[10, 11], [20, 21]]"]
  by (simp add: get_finger_def arg_def)

text \<open>
  C4: when the \<^verbatim>\<open>__init__\<close> of any of the four classes returns, \<^verbatim>\<open>num_fingers\<close> is 0
  and \<^verbatim>\<open>get_finger()\<close> returns the empty list, whatever the Robot constructor did to
  the object.
\<close>

theorem fresh_gripper_has_no_finger:
  "fst (init_of cls Robot_init self simulator urdf position orientation fixed_base scale) = Inr u \<Longrightarrow>
   fst (num_fingers (snd (init_of cls Robot_init self simulator urdf position orientation fixed_base scale))) = Inr 0 \<and>
   fst (get_finger (snd (init_of cls Robot_init self simulator urdf position orientation fixed_base scale)) None) = Inr (Fingers [])"
  unfolding init_of_is_Gripper_init
  by (frule Gripper_init_returns) (simp add: num_fingers_def get_finger_omitted)

theorem fresh_gripper_has_no_finger_witness:
  "fst (init_of ParallelGripper (\<lambda>self sim urdf p q f s. (Inr (), self\<lparr>robot := (urdf, p)\<rparr>))
          \<lparr>robot = (''none'', PyNone), fingers = None\<rparr> () ''gripper.urdf'' None None None None) =
     (Inr () :: unit + unit) \<and>
   fst (num_fingers (snd (init_of ParallelGripper
          (\<lambda>self sim urdf p q f s. (Inr () :: unit + unit, self\<lparr>robot := (urdf, p)\<rparr>))
          \<lparr>robot = (''none'', PyNone), fingers = None\<rparr> () ''gripper.urdf'' None None None None))) = Inr 0 \<and>
   fst (get_finger (snd (init_of ParallelGripper
          (\<lambda>self sim urdf p q f s. (Inr () :: unit + unit, self\<lparr>robot := (urdf, p)\<rparr>))
          \<lparr>robot = (''none'', PyNone), fingers = None\<rparr> () ''gripper.urdf'' None None None None)) None) =
     Inr (Fingers [])"
  using fresh_gripper_has_no_finger
    [of ParallelGripper "\<lambda>self sim urdf p q f s. (Inr () :: unit + unit, self\<lparr>robot := (urdf, p)\<rparr>)"
        "\<lparr>robot = (''none'', PyNone), fingers = None\<rparr>" "()" "''gripper.urdf''" None None None None "()"]
  by (simp add: ParallelGripper_init_def Gripper_init_def)

text \<open>
  C5: after any sequence of assignments to the attribute \<^verbatim>\<open>fingers\<close> of a constructed
  gripper, \<^verbatim>\<open>num_fingers\<close> is the length of the list assigned last (of the list the
  gripper had, when the sequence is empty): the count is read from the list at every call.
\<close>

theorem num_fingers_after_assignments:
  "fingers self = Some fs0 \<Longrightarrow>
   fst (num_fingers (foldl assign_fingers self fss)) = Inr (int (length (last (fs0 # fss))))"
  by (simp add: num_fingers_def foldl_assign_fingers)

theorem num_fingers_after_assignments_witness:
  "fingers \<lparr>robot = (), fingers = Some []\<rparr> = Some [] \<and>
   fst (num_fingers (foldl assign_fingers \<lparr>robot = (), fingers = Some []\<rparr>
          [[[10, 11], [20, 21]], [[10, 11], [20, 21], [30]]])) = Inr 3"
  using num_fingers_after_assignments
    [of "\<lparr>robot = (), fingers = Some []\<rparr>" "[]" "[[[10, 11], [20, 21]], [[10, 11], [20, 21], [30]]]"]
  by simp

text \<open>
  C6: \<^verbatim>\<open>num_fingers\<close> and \<^verbatim>\<open>get_finger\<close>, with any argument or none, leave the object as
  it was, so a second call, of either query, gives the outcome of the first.
\<close>

theorem queries_leave_object_unchanged:
  "snd (num_fingers self) = self \<and>
   snd (get_finger self finger_id) = self \<and>
   num_fingers (snd (num_fingers self)) = num_fingers self \<and>
   get_finger (snd (get_finger self finger_id)) finger_id = get_finger self finger_id \<and>
   num_fingers (snd (get_finger self finger_id)) = num_fingers self \<and>
   get_finger (snd (num_fingers self)) finger_id = get_finger self finger_id"
  by (simp add: num_fingers_def get_finger_def Let_def split: option.splits sum.splits)

text \<open>
  C7: the \<^verbatim>\<open>__init__\<close> of each of the three variants gives, on the same object and
  arguments, the outcome of \<^verbatim>\<open>Gripper.__init__\<close>; the two queries, which the variants
  inherit, then give the same outcomes on the constructed object, also after any
  assignments to its fingers.
\<close>

theorem variants_forward_to_Gripper:
  "ParallelGripper_init Robot_init self simulator urdf position orientation fixed_base scale =
     Gripper_init Robot_init self simulator urdf position orientation fixed_base scale \<and>
   AngularGripper_init Robot_init self simulator urdf position orientation fixed_base scale =
     Gripper_init Robot_init self simulator urdf position orientation fixed_base scale \<and>
   VacuumGripper_init Robot_init self simulator urdf position orientation fixed_base scale =
     Gripper_init Robot_init self simulator urdf position orientation fixed_base scale \<and>
   num_fingers (snd (init_of cls Robot_init self simulator urdf position orientation fixed_base scale)) =
     num_fingers (snd (Gripper_init Robot_init self simulator urdf position orientation fixed_base scale)) \<and>
   get_finger (snd (init_of cls Robot_init self simulator urdf position orientation fixed_base scale)) finger_id =
     get_finger (snd (Gripper_init Robot_init self simulator urdf position orientation fixed_base scale)) finger_id \<and>
   num_fingers (foldl assign_fingers
       (snd (init_of cls Robot_init self simulator urdf position orientation fixed_base scale)) fss) =
     num_fingers (foldl assign_fingers
       (snd (Gripper_init Robot_init self simulator urdf position orientation fixed_base scale)) fss) \<and>
   get_finger (foldl assign_fingers
       (snd (init_of cls Robot_init self simulator urdf position orientation fixed_base scale)) fss) finger_id =
     get_finger (foldl assign_fingers
       (snd (Gripper_init Robot_init self simulator urdf position orientation fixed_base scale)) fss) finger_id"
  using init_of_is_Gripper_init [of ParallelGripper Robot_init self simulator urdf position orientation fixed_base scale]
    init_of_is_Gripper_init [of AngularGripper Robot_init self simulator urdf position orientation fixed_base scale]
    init_of_is_Gripper_init [of VacuumGripper Robot_init self simulator urdf position orientation fixed_base scale]
    init_of_is_Gripper_init [of cls Robot_init self simulator urdf position orientation fixed_base scale]
  by simp

text \<open>
  C8: \<^verbatim>\<open>Gripper.__init__\<close> raises an exception exactly when the Robot constructor raises
  it; its outcome is then the outcome of the Robot constructor, exception and object alike,
  so the attribute \<^verbatim>\<open>fingers\<close> is not assigned on that path.
\<close>

theorem Robot_failure_propagates:
  "(fst (Gripper_init Robot_init self simulator urdf position orientation fixed_base scale) = Inl exn) =
   (fst (Robot_init self simulator urdf (arg default_position position)
           (arg default_orientation orientation) (arg default_fixed_base fixed_base)
           (arg default_scale scale)) = Inl exn) \<and>
   (fst (Robot_init self simulator urdf (arg default_position position)
           (arg default_orientation orientation) (arg default_fixed_base fixed_base)
           (arg default_scale scale)) = Inl exn \<longrightarrow>
    Gripper_init Robot_init self simulator urdf position orientation fixed_base scale =
      Robot_init self simulator urdf (arg default_position position)
        (arg default_orientation orientation) (arg default_fixed_base fixed_base)
        (arg default_scale scale))"
  by (auto simp add: Gripper_init_def split: prod.splits sum.splits)

theorem Robot_failure_propagates_witness:
  "fst ((\<lambda>self sim urdf p q f s. (Inl (''cannot load'', urdf), self))
          \<lparr>robot = (), fingers = None\<rparr> () ''missing.urdf'' (PyTuple [PyInt 0, PyInt 0, PyFloat 1])
          (PyTuple [PyInt 0, PyInt 0, PyInt 0, PyInt 1]) (PyBool False) (PyFloat 1)) =
     (Inl (''cannot load'', ''missing.urdf'') :: (string \<times> string) + unit) \<and>
   Gripper_init (\<lambda>self sim urdf p q f s. (Inl (''cannot load'', urdf), self))
       \<lparr>robot = (), fingers = None\<rparr> () ''missing.urdf'' None None None None =
     (Inl (''cannot load'', ''missing.urdf'') :: (string \<times> string) + unit,
      \<lparr>robot = (), fingers = None\<rparr>)"
  using Robot_failure_propagates
    [of "\<lambda>self sim urdf p q f s. (Inl (''cannot load'', urdf) :: (string \<times> string) + unit, self)"
        "\<lparr>robot = (), fingers = None\<rparr>" "()" "''missing.urdf''" None None None None
        "(''cannot load'', ''missing.urdf'')"]
  by (simp add: arg_def)

text \<open>
  C9: on a gripper with \<open>n\<close> fingers, \<^verbatim>\<open>get_finger(-k)\<close> with \<open>1 \<le> k \<le> n\<close> raises
  nothing and returns the finger at position \<open>n - k\<close>.
\<close>

theorem negative_index_from_end:
  "fingers self = Some fs \<Longrightarrow> 1 \<le> k \<Longrightarrow> k \<le> length fs \<Longrightarrow>
   get_finger self (Some (PyInt (- int k))) = (Inr (Finger (fs ! (length fs - k))), self)"
  by (simp add: get_finger_nonzero list_getitem_back)

theorem negative_index_from_end_witness:
  "fingers \<lparr>robot = (), fingers = Some [[10, 11], [20, 21]]\<rparr> = Some [[10, 11], [20, 21]] \<and>
   (1::nat) \<le> 2 \<and> (2::nat) \<le> length [[10, 11], [20, 21 :: int]] \<and>
   get_finger \<lparr>robot = (), fingers = Some [[10, 11], [20, 21]]\<rparr> (Some (PyInt (- 2))) =
     (Inr (Finger [10, 11]), \<lparr>robot = (), fingers = Some [[10, 11], [20, 21]]\<rparr>)"
  using negative_index_from_end
    [of "\<lparr>robot = (), fingers = Some [[10, 11], [20, 21]]\<rparr>" "[[10, 11], [20, 21]]" 2]
  by simp

text \<open>
  C10: for each of the four classes, \<^verbatim>\<open>__init__\<close> called with the simulator and the
  URDF only does what it does when called with position \<^verbatim>\<open>(0, 0, 1.)\<close>, orientation
  \<^verbatim>\<open>(0, 0, 0, 1)\<close>, \<^verbatim>\<open>fixed_base\<close> \<^verbatim>\<open>False\<close> and scale \<^verbatim>\<open>1.\<close>; and each of the four
  arguments, when omitted alone, takes its value of that list.
\<close>

theorem omitted_arguments_take_defaults:
  "init_of cls Robot_init self simulator urdf None None None None =
     init_of cls Robot_init self simulator urdf
       (Some (PyTuple [PyInt 0, PyInt 0, PyFloat 1]))
       (Some (PyTuple [PyInt 0, PyInt 0, PyInt 0, PyInt 1]))
       (Some (PyBool False)) (Some (PyFloat 1)) \<and>
   init_of cls Robot_init self simulator urdf position orientation fixed_base scale =
     init_of cls Robot_init self simulator urdf
       (Some (case position of None \<Rightarrow> PyTuple [PyInt 0, PyInt 0, PyFloat 1] | Some v \<Rightarrow> v))
       (Some (case orientation of None \<Rightarrow> PyTuple [PyInt 0, PyInt 0, PyInt 0, PyInt 1] | Some v \<Rightarrow> v))
       (Some (case fixed_base of None \<Rightarrow> PyBool False | Some v \<Rightarrow> v))
       (Some (case scale of None \<Rightarrow> PyFloat 1 | Some v \<Rightarrow> v))"
  by (cases cls)
     (simp_all add: ParallelGripper_init_def AngularGripper_init_def VacuumGripper_init_def
        Gripper_init_def arg_def default_position_def default_orientation_def
        default_fixed_base_def default_scale_def)

end
